theory Spec2Isabelle
  imports Complex_Main
begin

section \<open>Python values, dictionaries and exceptions\<close>

text \<open>
  The program passes JSON-shaped dictionaries around. A dictionary with a known set of keys is
  a record whose fields say, for each key, whether the key is missing (\<open>Absent\<close>), present
  with the value \<open>None\<close> (\<open>Null\<close>), or present with a value of the type that the catalog
  schema gives it (\<open>Val\<close>). A Python expression that may be \<open>None\<close> is an \<open>option\<close>.
  Strings are lists of characters; numeric scores are reals (finite floats and integers compare as the
  numbers they denote). An exception is a value of \<open>pyerr\<close>; a function whose body may
  raise returns \<open>pyerr + 'a\<close>, and a \<open>try\<close> block with a handler is a case distinction on that
  sum. Logging, URLs, headers, timeouts and the delay between notifications do not appear:
  no result depends on them. An HTTP call is an argument of the function that makes it, the
  exception or response that the call produces.
\<close>

datatype 'a field = Absent | Null | Val 'a

datatype pyerr = TypeError | AttributeError | ValueError | RequestException

text \<open>\<open>d.get(k)\<close>: a missing key reads as \<open>None\<close>.\<close>

definition get :: "'a field \<Rightarrow> 'a option" where
  "get f = (case f of Absent \<Rightarrow> None | Null \<Rightarrow> None | Val v \<Rightarrow> Some v)"

text \<open>\<open>d.get(k, dflt)\<close>: only a missing key reads as the default.\<close>

definition get_default :: "'a field \<Rightarrow> 'a \<Rightarrow> 'a option" where
  "get_default f dflt = (case f of Absent \<Rightarrow> Some dflt | Null \<Rightarrow> None | Val v \<Rightarrow> Some v)"

text \<open>A dictionary entry \<open>k: e\<close> where \<open>e\<close> may evaluate to \<open>None\<close>.\<close>

definition entry :: "'a option \<Rightarrow> 'a field" where
  "entry v = (case v of None \<Rightarrow> Null | Some x \<Rightarrow> Val x)"

text \<open>Truth value testing: \<open>None\<close>, the empty string, the empty list, zero and \<open>False\<close> are false.\<close>

definition truthy_seq :: "'a list option \<Rightarrow> bool" where
  "truthy_seq v = (case v of None \<Rightarrow> False | Some s \<Rightarrow> s \<noteq> [])"

definition truthy_int :: "int option \<Rightarrow> bool" where
  "truthy_int v = (case v of None \<Rightarrow> False | Some n \<Rightarrow> n \<noteq> 0)"

definition truthy_bool :: "bool option \<Rightarrow> bool" where
  "truthy_bool v = (case v of None \<Rightarrow> False | Some b \<Rightarrow> b)"

text \<open>Sequencing of computations that may raise: the first exception ends the computation.\<close>

definition ebind :: "pyerr + 'a \<Rightarrow> ('a \<Rightarrow> pyerr + 'b) \<Rightarrow> pyerr + 'b" where
  "ebind m f = (case m of Inl e \<Rightarrow> Inl e | Inr x \<Rightarrow> f x)"

text \<open>\<open>for x in e\<close>: iterating over \<open>None\<close> raises \<open>TypeError\<close>.\<close>

definition iter :: "'a list option \<Rightarrow> pyerr + 'a list" where
  "iter v = (case v of None \<Rightarrow> Inl TypeError | Some xs \<Rightarrow> Inr xs)"

section \<open>Release Checker (release\_checker.py)\<close>

definition RELEASE_TYPE_DIGITAL :: int where
  "RELEASE_TYPE_DIGITAL = 4"

text \<open>
  The catalog's detail record. The prefix \<open>m_\<close> marks the keys of the movie object itself;
  \<open>release_info\<close> is one element of a country's \<open>release_dates\<close> array and its keys
  \<open>type\<close>, \<open>release_date\<close>, \<open>certification\<close> carry the prefix \<open>rd_\<close>; the key \<open>results\<close> of the
  \<open>release_dates\<close> object is \<open>country_results\<close>.
\<close>

record release_info =
  rd_type :: "int field"
  rd_release_date :: "string field"
  rd_certification :: "string field"

record country_releases =
  iso_3166_1 :: "string field"
  release_dates :: "release_info list field"

record release_dates_obj =
  country_results :: "country_releases list field"

record genre =
  name :: "string field"

record movie =
  m_id :: "int field"
  m_title :: "string field"
  m_release_date :: "string field"
  m_overview :: "string field"
  m_imdb_id :: "string field"
  m_vote_average :: "real field"
  m_popularity :: "real field"
  m_adult :: "bool field"
  m_poster_path :: "string field"
  m_original_language :: "string field"
  m_genres :: "genre list field"
  m_release_dates :: "release_dates_obj field"

text \<open>
  The body of the inner loop of \<open>_find_digital_release_info\<close>: one release entry of the
  country \<open>country\<close>, acting on the pair \<open>(digital_date, certification)\<close>.
\<close>

definition release_step ::
  "string option \<Rightarrow> release_info \<Rightarrow> string option \<times> string option \<Rightarrow> string option \<times> string option" where
  "release_step country release st =
     (case st of (digital_date, certification) \<Rightarrow>
        if get (rd_type release) = Some RELEASE_TYPE_DIGITAL then
          (let release_date = get_default (rd_release_date release) '''';
               digital_date' =
                 (if truthy_seq release_date \<and> \<not> truthy_seq digital_date
                  then map_option (take 10) release_date else digital_date);
               cert = get_default (rd_certification release) '''';
               certification' =
                 (if truthy_seq cert then
                    (if country = Some ''US'' then cert
                     else if \<not> truthy_seq certification then cert
                     else certification)
                  else certification)
           in (digital_date', certification'))
        else st)"

text \<open>The outer loop over the country entries.\<close>

fun country_loop ::
  "country_releases list \<Rightarrow> string option \<times> string option \<Rightarrow> pyerr + string option \<times> string option" where
  "country_loop [] st = Inr st"
| "country_loop (country_releases # rest) st =
     ebind (iter (get_default (release_dates country_releases) []))
       (\<lambda>rs. country_loop rest
          (fold (release_step (get_default (iso_3166_1 country_releases) '''')) rs st))"

definition find_digital_release_info :: "movie \<Rightarrow> pyerr + string option \<times> string option" where
  "find_digital_release_info movie =
     ebind (case m_release_dates movie of
              Absent \<Rightarrow> Inr (Some [])
            | Null \<Rightarrow> Inl AttributeError
            | Val obj \<Rightarrow> Inr (get_default (country_results obj) []))
       (\<lambda>release_dates. ebind (iter release_dates) (\<lambda>cs. country_loop cs (None, None)))"

text \<open>
  The release dictionary that flows through the filters and the sinks. The Release Checker
  builds it with all thirteen keys; the other components read it with \<open>get\<close> and accept
  dictionaries that lack keys. An element of \<open>genres\<close> is \<open>g.get("name")\<close> and so may be
  \<open>None\<close>.
\<close>

record release =
  type :: "string field"
  tmdb_id :: "int field"
  title :: "string field"
  release_date :: "string field"
  overview :: "string field"
  imdb_id :: "string field"
  vote_average :: "real field"
  popularity :: "real field"
  adult :: "bool field"
  poster_path :: "string field"
  original_language :: "string field"
  genres :: "string option list field"
  certification :: "string field"

text \<open>
  \<open>_get_movie_with_release_dates\<close>, from the point where the catalog has answered: the
  argument is what \<open>requests.get\<close>, \<open>raise_for_status\<close> and \<open>response.json()\<close> produce, an
  exception or the parsed detail record. Every exception ends in \<open>return None\<close>.
\<close>

definition get_movie_with_release_dates :: "pyerr + movie \<Rightarrow> release option" where
  "get_movie_with_release_dates response =
     (case
        ebind response (\<lambda>movie.
        ebind (find_digital_release_info movie) (\<lambda>(digital_release_date, certification).
        ebind (iter (get_default (m_genres movie) [])) (\<lambda>gs.
          Inr \<lparr> type = Val ''movie'',
                tmdb_id = entry (get (m_id movie)),
                title = entry (get (m_title movie)),
                release_date = entry (if truthy_seq digital_release_date then digital_release_date
                                      else get (m_release_date movie)),
                overview = entry (get (m_overview movie)),
                imdb_id = entry (get (m_imdb_id movie)),
                vote_average = entry (get (m_vote_average movie)),
                popularity = entry (get (m_popularity movie)),
                adult = entry (get_default (m_adult movie) False),
                poster_path = entry (get (m_poster_path movie)),
                original_language = entry (get_default (m_original_language movie) ''''),
                genres = Val (map (\<lambda>g. get (name g)) gs),
                certification = entry certification \<rparr>)))
      of Inl e \<Rightarrow> None | Inr r \<Rightarrow> Some r)"

subsection \<open>The tie-break policy, as the specification words it\<close>

text \<open>An entry counts when its release type is the digital one.\<close>

definition digital :: "release_info \<Rightarrow> bool" where
  "digital r = (get (rd_type r) = Some RELEASE_TYPE_DIGITAL)"

text \<open>The country entries of a detail record, in catalog order.\<close>

definition country_entries :: "movie \<Rightarrow> country_releases list" where
  "country_entries movie =
     (case m_release_dates movie of
        Val obj \<Rightarrow> (case country_results obj of Val cs \<Rightarrow> cs | _ \<Rightarrow> [])
      | _ \<Rightarrow> [])"

definition country_digital :: "country_releases \<Rightarrow> release_info list" where
  "country_digital c = filter digital (case release_dates c of Val rs \<Rightarrow> rs | _ \<Rightarrow> [])"

text \<open>The pairs (country, certification) of the digital entries, in catalog order.\<close>

definition country_digital_certs :: "country_releases \<Rightarrow> (string option \<times> string option) list" where
  "country_digital_certs c =
     map (\<lambda>r. (get_default (iso_3166_1 c) '''', get_default (rd_certification r) ''''))
       (country_digital c)"

definition digital_certifications :: "movie \<Rightarrow> (string option \<times> string option) list" where
  "digital_certifications movie = concat (map country_digital_certs (country_entries movie))"

text \<open>
  Certification: a non-empty certification from "US" overwrites what is recorded; a non-empty
  certification from another country is recorded only if nothing is recorded yet.
\<close>

definition certification_policy_step ::
  "string option \<Rightarrow> string option \<times> string option \<Rightarrow> string option" where
  "certification_policy_step recorded e =
     (case e of (country, cert) \<Rightarrow>
        if truthy_seq cert then
          (if country = Some ''US'' then cert
           else if truthy_seq recorded then recorded else cert)
        else recorded)"

definition certification_policy :: "(string option \<times> string option) list \<Rightarrow> string option" where
  "certification_policy es = foldl certification_policy_step None es"

text \<open>Date: the first non-empty release date of a digital entry, cut to ten characters.\<close>

definition digital_dates :: "movie \<Rightarrow> string option list" where
  "digital_dates movie =
     concat (map (\<lambda>c. map (\<lambda>r. get_default (rd_release_date r) '''') (country_digital c))
       (country_entries movie))"

definition first_digital_date :: "string option list \<Rightarrow> string option" where
  "first_digital_date ds =
     (case filter truthy_seq ds of [] \<Rightarrow> None | d # _ \<Rightarrow> map_option (take 10) d)"

text \<open>The date that the loop holds after more entries: a recorded date stays.\<close>

definition keep_or :: "string option \<Rightarrow> string option \<Rightarrow> string option" where
  "keep_or d found = (if truthy_seq d then d else (case found of None \<Rightarrow> d | Some x \<Rightarrow> Some x))"

text \<open>
  The detail record has a release-dates structure that can be walked: no object or array on
  the way is \<open>None\<close>.
\<close>

definition release_dates_ok :: "movie \<Rightarrow> bool" where
  "release_dates_ok movie =
     (case m_release_dates movie of
        Absent \<Rightarrow> True
      | Null \<Rightarrow> False
      | Val obj \<Rightarrow> country_results obj \<noteq> Null \<and> list_all (\<lambda>c. release_dates c \<noteq> Null) (country_entries movie))"

text \<open>A detail record with nothing but the given country entries.\<close>

definition movie_with :: "country_releases list \<Rightarrow> movie" where
  "movie_with cs =
     \<lparr> m_id = Absent, m_title = Absent, m_release_date = Absent, m_overview = Absent,
       m_imdb_id = Absent, m_vote_average = Absent, m_popularity = Absent, m_adult = Absent,
       m_poster_path = Absent, m_original_language = Absent, m_genres = Absent,
       m_release_dates = Val \<lparr> country_results = Val cs \<rparr> \<rparr>"

text \<open>A country entry with one digital release carrying the given certification.\<close>

definition digital_cert :: "string \<times> string \<Rightarrow> country_releases" where
  "digital_cert e =
     \<lparr> iso_3166_1 = Val (fst e),
       release_dates = Val [\<lparr> rd_type = Val 4, rd_release_date = Absent,
                              rd_certification = Val (snd e) \<rparr>] \<rparr>"

text \<open>
  A detail record as the catalog returns it: a theatrical entry with a certification, then two
  digital entries with dates and empty certifications.
\<close>

definition sample_movie :: movie where
  "sample_movie =
     \<lparr> m_id = Val 550, m_title = Val ''Sample'', m_release_date = Val ''2025-12-25'',
       m_overview = Null, m_imdb_id = Val ''tt0000550'', m_vote_average = Val 7.5,
       m_popularity = Val 12, m_adult = Val False, m_poster_path = Null,
       m_original_language = Val ''en'', m_genres = Val [\<lparr> name = Val ''Drama'' \<rparr>],
       m_release_dates = Val \<lparr> country_results = Val
         [\<lparr> iso_3166_1 = Val ''FR'', release_dates = Val
             [\<lparr> rd_type = Val 3, rd_release_date = Val ''2025-12-25T00:00:00.000Z'',
                rd_certification = Val ''12'' \<rparr>,
              \<lparr> rd_type = Val 4, rd_release_date = Val ''2026-01-10T00:00:00.000Z'',
                rd_certification = Val '''' \<rparr>] \<rparr>,
          \<lparr> iso_3166_1 = Val ''US'', release_dates = Val
             [\<lparr> rd_type = Val 4, rd_release_date = Val ''2026-02-01T00:00:00.000Z'',
                rd_certification = Val '''' \<rparr>] \<rparr>] \<rparr> \<rparr>"

section \<open>Filter Engine (filters.py)\<close>

text \<open>
  \<open>str.upper()\<close> and \<open>str.lower()\<close>. On a string of ASCII characters the twenty-six letters
  change case and every other character stays. On a string with a character outside ASCII the
  result is given by Python's Unicode case tables, which are not part of the program: they are
  a parameter, the record \<open>unicode_case\<close>, of every function that changes case.
\<close>

record unicode_case =
  unicode_upper :: "string \<Rightarrow> string"
  unicode_lower :: "string \<Rightarrow> string"

text \<open>\<open>str.isascii()\<close>\<close>

definition isascii :: "string \<Rightarrow> bool" where
  "isascii s = list_all (\<lambda>c. \<not> digit7 c) s"

definition ascii_lowercase :: string where
  "ascii_lowercase = ''abcdefghijklmnopqrstuvwxyz''"

definition ascii_uppercase :: string where
  "ascii_uppercase = ''ABCDEFGHIJKLMNOPQRSTUVWXYZ''"

definition upper_char :: "char \<Rightarrow> char" where
  "upper_char c =
     (case map_of (zip ascii_lowercase ascii_uppercase) c of None \<Rightarrow> c | Some u \<Rightarrow> u)"

definition lower_char :: "char \<Rightarrow> char" where
  "lower_char c =
     (case map_of (zip ascii_uppercase ascii_lowercase) c of None \<Rightarrow> c | Some l \<Rightarrow> l)"

definition upper :: "unicode_case \<Rightarrow> string \<Rightarrow> string" where
  "upper u s = (if isascii s then map upper_char s else unicode_upper u s)"

definition lower :: "unicode_case \<Rightarrow> string \<Rightarrow> string" where
  "lower u s = (if isascii s then map lower_char s else unicode_lower u s)"

text \<open>Ordering comparisons of numbers: a \<open>None\<close> operand raises \<open>TypeError\<close>.\<close>

definition py_gt :: "real option \<Rightarrow> real option \<Rightarrow> pyerr + bool" where
  "py_gt a b = (case (a, b) of (Some x, Some y) \<Rightarrow> Inr (x > y) | _ \<Rightarrow> Inl TypeError)"

definition py_ge :: "real option \<Rightarrow> real option \<Rightarrow> pyerr + bool" where
  "py_ge a b = (case (a, b) of (Some x, Some y) \<Rightarrow> Inr (x \<ge> y) | _ \<Rightarrow> Inl TypeError)"

text \<open>\<open>x in xs\<close> for a list of strings: \<open>None\<close> is equal to none of them.\<close>

definition py_in :: "string option \<Rightarrow> string list \<Rightarrow> bool" where
  "py_in x xs = (case x of None \<Rightarrow> False | Some s \<Rightarrow> s \<in> set xs)"

text \<open>
  The loop \<open>for release in releases: if keep(release): filtered.append(release)\<close> where the
  test may raise: the first exception leaves the loop and the function.
\<close>

fun filter_raising :: "('a \<Rightarrow> pyerr + bool) \<Rightarrow> 'a list \<Rightarrow> pyerr + 'a list" where
  "filter_raising keep [] = Inr []"
| "filter_raising keep (x # xs) =
     ebind (keep x) (\<lambda>k.
     ebind (filter_raising keep xs) (\<lambda>filtered.
       Inr (if k then x # filtered else filtered)))"

text \<open>The \<open>filters\<close> section of the configuration, which the engine keeps as \<open>self.filters\<close>.\<close>

record filters =
  exclude_adult :: "bool field"
  min_tmdb_rating :: "real field"
  allowed_languages :: "string list field"
  excluded_genres :: "string list field"
  excluded_certifications :: "string list field"

definition filter_adult :: "release list \<Rightarrow> release list" where
  "filter_adult releases =
     filter (\<lambda>r. \<not> truthy_bool (get_default (adult r) False)) releases"

definition filter_by_tmdb_rating :: "filters \<Rightarrow> release list \<Rightarrow> pyerr + release list" where
  "filter_by_tmdb_rating self_filters releases =
     (let min_rating = get_default (min_tmdb_rating self_filters) 0
      in filter_raising
           (\<lambda>release. py_ge (get_default (vote_average release) 0) min_rating) releases)"

definition filter_by_allowed_languages :: "release list \<Rightarrow> string list \<Rightarrow> release list" where
  "filter_by_allowed_languages releases allowed_langs =
     filter (\<lambda>release. py_in (get_default (original_language release) '''') allowed_langs)
       releases"

text \<open>\<open>[g.lower() for g in genres]\<close>: an element that is \<open>None\<close> has no \<open>lower\<close>.\<close>

fun lower_all :: "unicode_case \<Rightarrow> string option list \<Rightarrow> pyerr + string list" where
  "lower_all u [] = Inr []"
| "lower_all u (None # gs) = Inl AttributeError"
| "lower_all u (Some g # gs) = ebind (lower_all u gs) (\<lambda>ls. Inr (lower u g # ls))"

definition has_excluded_genre :: "unicode_case \<Rightarrow> string list \<Rightarrow> release \<Rightarrow> pyerr + bool" where
  "has_excluded_genre u excluded_lower release =
     ebind (iter (get_default (genres release) [])) (\<lambda>gs.
     ebind (lower_all u gs) (\<lambda>genres_lower.
       Inr (list_ex (\<lambda>g. g \<in> set excluded_lower) genres_lower)))"

definition filter_by_excluded_genres ::
  "unicode_case \<Rightarrow> release list \<Rightarrow> string list \<Rightarrow> pyerr + release list" where
  "filter_by_excluded_genres u releases excluded_genre_names =
     (let excluded_lower = map (lower u) excluded_genre_names
      in filter_raising
           (\<lambda>release. ebind (has_excluded_genre u excluded_lower release) (\<lambda>b. Inr (\<not> b)))
           releases)"

text \<open>\<open>cert and cert.upper() in excluded_upper\<close>\<close>

definition has_excluded_certification :: "unicode_case \<Rightarrow> string list \<Rightarrow> release \<Rightarrow> bool" where
  "has_excluded_certification u excluded_upper release =
     (case get_default (certification release) '''' of
        None \<Rightarrow> False
      | Some cert \<Rightarrow> cert \<noteq> [] \<and> upper u cert \<in> set excluded_upper)"

definition filter_by_excluded_certifications ::
  "unicode_case \<Rightarrow> release list \<Rightarrow> string list \<Rightarrow> release list" where
  "filter_by_excluded_certifications u releases excluded_certs =
     (let excluded_upper = map (upper u) excluded_certs
      in filter (\<lambda>release. \<not> has_excluded_certification u excluded_upper release) releases)"

text \<open>
  The five guarded blocks of \<open>apply_filters\<close>, one definition each, in the order of the
  source; \<open>apply_filters\<close> runs them one after the other on the list so far.
\<close>

definition adult_stage :: "filters \<Rightarrow> release list \<Rightarrow> pyerr + release list" where
  "adult_stage self_filters filtered =
     (if truthy_bool (get (exclude_adult self_filters)) then Inr (filter_adult filtered)
      else Inr filtered)"

definition rating_stage :: "filters \<Rightarrow> release list \<Rightarrow> pyerr + release list" where
  "rating_stage self_filters filtered =
     ebind (py_gt (get_default (min_tmdb_rating self_filters) 0) (Some 0)) (\<lambda>enabled.
       if enabled then filter_by_tmdb_rating self_filters filtered else Inr filtered)"

definition languages_stage :: "filters \<Rightarrow> release list \<Rightarrow> pyerr + release list" where
  "languages_stage self_filters filtered =
     (case get_default (allowed_languages self_filters) [] of
        None \<Rightarrow> Inr filtered
      | Some allowed_langs \<Rightarrow>
          if allowed_langs \<noteq> [] then Inr (filter_by_allowed_languages filtered allowed_langs)
          else Inr filtered)"

definition genres_stage :: "unicode_case \<Rightarrow> filters \<Rightarrow> release list \<Rightarrow> pyerr + release list" where
  "genres_stage u self_filters filtered =
     (case get_default (excluded_genres self_filters) [] of
        None \<Rightarrow> Inr filtered
      | Some excluded \<Rightarrow>
          if excluded \<noteq> [] then filter_by_excluded_genres u filtered excluded
          else Inr filtered)"

definition certifications_stage ::
  "unicode_case \<Rightarrow> filters \<Rightarrow> release list \<Rightarrow> pyerr + release list" where
  "certifications_stage u self_filters filtered =
     (case get_default (excluded_certifications self_filters) [] of
        None \<Rightarrow> Inr filtered
      | Some excluded_certs \<Rightarrow>
          if excluded_certs \<noteq> []
          then Inr (filter_by_excluded_certifications u filtered excluded_certs)
          else Inr filtered)"

definition apply_filters :: "unicode_case \<Rightarrow> filters \<Rightarrow> release list \<Rightarrow> pyerr + release list" where
  "apply_filters u self_filters releases =
     ebind (adult_stage self_filters releases) (\<lambda>filtered.
     ebind (rating_stage self_filters filtered) (\<lambda>filtered.
     ebind (languages_stage self_filters filtered) (\<lambda>filtered.
     ebind (genres_stage u self_filters filtered) (\<lambda>filtered.
     certifications_stage u self_filters filtered))))"

subsection \<open>Running the stages in another order\<close>

datatype stage = Adult | Rating | Languages | Genres | Certifications



definition fixed_order :: "stage list" where
  "fixed_order = [Adult, Rating, Languages, Genres, Certifications]"


text \<open>A release and a configuration with every key missing.\<close>

definition empty_release :: release where
  "empty_release =
     \<lparr> type = Absent, tmdb_id = Absent, title = Absent, release_date = Absent,
       overview = Absent, imdb_id = Absent, vote_average = Absent, popularity = Absent,
       adult = Absent, poster_path = Absent, original_language = Absent, genres = Absent,
       certification = Absent \<rparr>"

definition no_filters :: filters where
  "no_filters =
     \<lparr> exclude_adult = Absent, min_tmdb_rating = Absent, allowed_languages = Absent,
       excluded_genres = Absent, excluded_certifications = Absent \<rparr>"

subsection \<open>The filters, as the specification words them\<close>







text \<open>The language of a release is on the allow-list; a missing language counts as empty.\<close>

definition language_allowed :: "string list \<Rightarrow> release \<Rightarrow> bool" where
  "language_allowed allowed_langs r =
     (case original_language r of
        Absent \<Rightarrow> [] \<in> set allowed_langs
      | Null \<Rightarrow> False
      | Val l \<Rightarrow> l \<in> set allowed_langs)"

subsection \<open>Fixtures for the Filter Engine\<close>









definition spoken :: "string field \<Rightarrow> release" where
  "spoken l = empty_release \<lparr> original_language := l \<rparr>"

section \<open>Configuration sections of the sinks\<close>

record sink_section =
  api_url :: "string field"
  api_key :: "string field"

record discord_section =
  webhook_url :: "string field"

record config =
  overseerr :: "sink_section field"
  riven :: "sink_section field"
  discord :: "discord_section field"

text \<open>
  \<open>d.get(section, {}).get(key, ...)\<close>, up to the lookup of the key: a missing section reads as
  the empty dictionary, a section that is \<open>None\<close> has no \<open>get\<close>.
\<close>

definition section_key :: "'s field \<Rightarrow> ('s \<Rightarrow> 'a field) \<Rightarrow> pyerr + 'a field" where
  "section_key section key =
     (case section of
        Absent \<Rightarrow> Inr Absent
      | Null \<Rightarrow> Inl AttributeError
      | Val s \<Rightarrow> Inr (key s))"

text \<open>\<open>str(x)\<close> for an integer.\<close>

function str_nat :: "nat \<Rightarrow> string" where
  "str_nat n =
     (if n < 10 then [''0123456789'' ! n]
      else str_nat (n div 10) @ [''0123456789'' ! (n mod 10)])"
  by pat_completeness auto
termination
  by (relation "measure (\<lambda>n. n)") auto

definition str_int :: "int \<Rightarrow> string" where
  "str_int i = (if i < 0 then CHR ''-'' # str_nat (nat (- i)) else str_nat (nat i))"

section \<open>Minimal-request sink (overseerr\_requester.py)\<close>

record overseerr_requester =
  overseerr_api_url :: "string option"
  overseerr_api_key :: "string option"

definition OverseerrRequester_init :: "config \<Rightarrow> pyerr + overseerr_requester" where
  "OverseerrRequester_init cfg =
     ebind (section_key (overseerr cfg) api_url) (\<lambda>url.
     ebind (section_key (overseerr cfg) api_key) (\<lambda>key.
       (let self = \<lparr> overseerr_api_url = get_default url ''http://localhost:5055'',
                     overseerr_api_key = get_default key '''' \<rparr>
        in if \<not> truthy_seq (overseerr_api_key self) then Inl ValueError else Inr self)))"

text \<open>
  The answer to the status check: the status code and what \<open>response.json()\<close> gives, an
  exception or the parsed body.
\<close>

record media_info =
  status :: "int field"

record movie_status =
  mediaInfo :: "media_info field"

record status_response =
  status_code :: int
  json :: "pyerr + movie_status"

record request_payload =
  mediaId :: int
  mediaType :: string

text \<open>
  The backend as the sink sees it: what \<open>requests.get\<close> on the movie's status endpoint and
  \<open>requests.post\<close> of a payload on the request endpoint produce, an exception or a response.
\<close>

record overseerr_backend =
  get_movie :: "int \<Rightarrow> pyerr + status_response"
  post_request :: "request_payload \<Rightarrow> pyerr + int"

definition is_already_requested :: "overseerr_backend \<Rightarrow> int \<Rightarrow> bool" where
  "is_already_requested backend tmdb_id' =
     (case
        ebind (get_movie backend tmdb_id') (\<lambda>response.
          if status_code response = 200 then
            ebind (json response) (\<lambda>data.
            ebind (section_key (mediaInfo data) status) (\<lambda>st.
              (let status' = get st
               in if truthy_int status' \<and> (case status' of None \<Rightarrow> False | Some s \<Rightarrow> s \<ge> 2)
                  then Inr True else Inr False)))
          else Inr False)
      of Inl e \<Rightarrow> False | Inr b \<Rightarrow> b)"

text \<open>
  \<open>request_media\<close> returns its boolean together with the payloads it has posted (none or
  one), so that "without submitting" can be said. The first two branches are
  \<open>if not tmdb_id\<close>: the identifier is missing, \<open>None\<close> or zero. The only call of the body that
  can raise is the POST, and both handlers return \<open>False\<close>.
\<close>

definition request_media :: "overseerr_backend \<Rightarrow> release \<Rightarrow> bool \<times> request_payload list" where
  "request_media backend release =
     (case get (tmdb_id release) of
        None \<Rightarrow> (False, [])
      | Some tmdb_id' \<Rightarrow>
          if tmdb_id' = 0 then (False, [])
          else if is_already_requested backend tmdb_id' then (False, [])
          else
            (let payload = \<lparr> mediaId = tmdb_id', mediaType = ''movie'' \<rparr>
             in (case post_request backend payload of
                   Inl e \<Rightarrow> (False, [payload])
                 | Inr code \<Rightarrow>
                     if code \<in> set [200, 201] then (True, [payload])
                     else if code = 409 then (True, [payload])
                     else (False, [payload]))))"

section \<open>Bulk-ingest sink (riven\_requester.py)\<close>

record riven_requester =
  riven_api_url :: "string option"
  riven_api_key :: "string option"

definition RivenRequester_init :: "config \<Rightarrow> pyerr + riven_requester" where
  "RivenRequester_init cfg =
     ebind (section_key (riven cfg) api_url) (\<lambda>url.
     ebind (section_key (riven cfg) api_key) (\<lambda>key.
       Inr \<lparr> riven_api_url = get_default url ''http://localhost:8083'',
             riven_api_key = get_default key '''' \<rparr>))"

definition riven_is_enabled :: "riven_requester \<Rightarrow> bool" where
  "riven_is_enabled self = (truthy_seq (riven_api_key self) \<and> truthy_seq (riven_api_url self))"

record items_payload =
  media_type :: string
  tmdb_ids :: "string list"

datatype result_item =
    Added "string list"
  | Status_error int "string option"
  | Raised pyerr

record batch_result =
  success :: nat
  failed :: nat
  results :: "result_item list"

text \<open>
  \<open>_add_items\<close> with the backend's answer to the one POST as a function of the payload; it
  returns the result dictionary together with the payloads it has posted. The only call of
  the body that can raise is the POST; both handlers build the same dictionary, with
  \<open>len(releases)\<close> as \<open>failed\<close>.
\<close>

definition add_items ::
  "(items_payload \<Rightarrow> pyerr + int) \<Rightarrow> string \<Rightarrow> release list \<Rightarrow> batch_result \<times> items_payload list" where
  "add_items post media_type' releases =
     (let ids = map (\<lambda>r. case get (tmdb_id r) of None \<Rightarrow> ''None'' | Some i \<Rightarrow> str_int i)
                  (filter (\<lambda>r. truthy_int (get (tmdb_id r))) releases)
      in if ids = [] then (\<lparr> success = 0, failed = length releases, results = [] \<rparr>, [])
         else
           (let payload = \<lparr> media_type = media_type', tmdb_ids = ids \<rparr>
            in (case post payload of
                  Inl e \<Rightarrow>
                    (\<lparr> success = 0, failed = length releases, results = [Raised e] \<rparr>, [payload])
                | Inr code \<Rightarrow>
                    if code = 200 then
                      (\<lparr> success = length ids, failed = 0, results = [Added ids] \<rparr>, [payload])
                    else if code = 404 then
                      (\<lparr> success = 0, failed = length ids,
                         results = [Status_error 404 (Some ''Not found'')] \<rparr>, [payload])
                    else if code = 422 then
                      (\<lparr> success = 0, failed = length ids,
                         results = [Status_error 422 (Some ''Validation error'')] \<rparr>, [payload])
                    else
                      (\<lparr> success = 0, failed = length ids,
                         results = [Status_error code None] \<rparr>, [payload]))))"

definition add_media ::
  "riven_requester \<Rightarrow> (items_payload \<Rightarrow> pyerr + int) \<Rightarrow> release list \<Rightarrow> batch_result \<times> items_payload list" where
  "add_media self post releases =
     (if \<not> riven_is_enabled self then (\<lparr> success = 0, failed = 0, results = [] \<rparr>, [])
      else
        (let movies = filter (\<lambda>r. get (type r) = Some ''movie'') releases
         in if movies \<noteq> [] then add_items post ''movie'' movies
            else (\<lparr> success = 0, failed = 0, results = [] \<rparr>, [])))"

section \<open>Notification sink (discord\_notifier.py)\<close>

record discord_notifier =
  discord_webhook_url :: "string option"

definition DiscordNotifier_init :: "config \<Rightarrow> pyerr + discord_notifier" where
  "DiscordNotifier_init cfg =
     ebind (section_key (discord cfg) webhook_url) (\<lambda>url.
       Inr \<lparr> discord_webhook_url = get_default url '''' \<rparr>)"

definition discord_is_enabled :: "discord_notifier \<Rightarrow> bool" where
  "discord_is_enabled self = truthy_seq (discord_webhook_url self)"

text \<open>\<open>str(release.get("tmdb_id", ""))\<close>\<close>

definition result_key :: "release \<Rightarrow> string" where
  "result_key release =
     (case tmdb_id release of Absent \<Rightarrow> '''' | Null \<Rightarrow> ''None'' | Val i \<Rightarrow> str_int i)"

type_synonym release_result = "string \<rightharpoonup> bool"

text \<open>
  One turn of the loop of \<open>send_release_notifications\<close>. \<open>send\<close> stands for
  \<open>_send_release_notification\<close>, which formats and posts the message and may raise; the state
  is \<open>sent_count\<close> and the releases for which \<open>send\<close> has been called.
\<close>

definition notification_step ::
  "(release \<Rightarrow> release_result \<Rightarrow> pyerr + bool) \<Rightarrow> (string \<rightharpoonup> release_result) \<Rightarrow>
   release \<Rightarrow> nat \<times> release list \<Rightarrow> nat \<times> release list" where
  "notification_step send results' release st =
     (case st of (sent_count, attempted) \<Rightarrow>
        (let release_result =
               (case results' (result_key release) of None \<Rightarrow> Map.empty | Some d \<Rightarrow> d)
         in if \<not> truthy_bool (release_result ''overseerr'') \<and> \<not> truthy_bool (release_result ''riven'')
            then st
            else (case send release release_result of
                    Inl e \<Rightarrow> (sent_count, attempted @ [release])
                  | Inr ok \<Rightarrow>
                      (if ok then sent_count + 1 else sent_count, attempted @ [release]))))"

definition send_release_notifications ::
  "discord_notifier \<Rightarrow> (release \<Rightarrow> release_result \<Rightarrow> pyerr + bool) \<Rightarrow> release list \<Rightarrow>
   (string \<rightharpoonup> release_result) \<Rightarrow> nat \<times> release list" where
  "send_release_notifications self send releases results' =
     (if \<not> discord_is_enabled self then (0, [])
      else fold (notification_step send results') releases (0, []))"

section \<open>The sinks, as the specification words them\<close>

text \<open>
  A credential or endpoint is missing from a section when the section itself is missing or
  the key is missing, \<open>None\<close> or the empty string.
\<close>

definition missing :: "'s field \<Rightarrow> ('s \<Rightarrow> string field) \<Rightarrow> bool" where
  "missing section key =
     (case section of
        Absent \<Rightarrow> True
      | Null \<Rightarrow> False
      | Val s \<Rightarrow> key s = Absent \<or> key s = Null \<or> key s = Val '''')"

text \<open>An endpoint is blank when it is configured as \<open>None\<close> or the empty string.\<close>

definition blank :: "'s field \<Rightarrow> ('s \<Rightarrow> string field) \<Rightarrow> bool" where
  "blank section key =
     (case section of
        Absent \<Rightarrow> False
      | Null \<Rightarrow> False
      | Val s \<Rightarrow> key s = Null \<or> key s = Val '''')"

text \<open>The status check reports the item as pending or further along.\<close>

definition reported_requested :: "overseerr_backend \<Rightarrow> int \<Rightarrow> bool" where
  "reported_requested backend i =
     (case get_movie backend i of
        Inl e \<Rightarrow> False
      | Inr response \<Rightarrow>
          status_code response = 200
          \<and> (case json response of
                Inl e \<Rightarrow> False
              | Inr data \<Rightarrow>
                  (case mediaInfo data of
                     Val info \<Rightarrow> (case status info of Val s \<Rightarrow> s \<ge> 2 | _ \<Rightarrow> False)
                   | _ \<Rightarrow> False)))"

text \<open>A release carries a catalog identifier; it is a movie.\<close>

definition carries_id :: "release \<Rightarrow> bool" where
  "carries_id r = (case tmdb_id r of Val i \<Rightarrow> i \<noteq> 0 | _ \<Rightarrow> False)"

definition is_movie :: "release \<Rightarrow> bool" where
  "is_movie r = (type r = Val ''movie'')"

text \<open>The identifiers that a list of releases submits.\<close>

definition submitted_ids :: "release list \<Rightarrow> string list" where
  "submitted_ids releases =
     map (\<lambda>r. case tmdb_id r of Val i \<Rightarrow> str_int i | _ \<Rightarrow> [])
       (filter (\<lambda>r. is_movie r \<and> carries_id r) releases)"

text \<open>At least one sink is marked successful in the entry for the release's identifier.\<close>

definition notifiable :: "(string \<rightharpoonup> release_result) \<Rightarrow> release \<Rightarrow> bool" where
  "notifiable results' r =
     (case results' (result_key r) of
        None \<Rightarrow> False
      | Some d \<Rightarrow> d ''overseerr'' = Some True \<or> d ''riven'' = Some True)"

subsection \<open>Fixtures for the sinks\<close>

definition movie_release :: "int field \<Rightarrow> release" where
  "movie_release i = empty_release \<lparr> type := Val ''movie'', tmdb_id := i \<rparr>"

definition tv_release :: "int field \<Rightarrow> release" where
  "tv_release i = empty_release \<lparr> type := Val ''tv'', tmdb_id := i \<rparr>"

definition riven_on :: riven_requester where
  "riven_on = \<lparr> riven_api_url = Some ''http://localhost:8083'', riven_api_key = Some ''key'' \<rparr>"

definition discord_on :: discord_notifier where
  "discord_on = \<lparr> discord_webhook_url = Some ''https://discord.example/webhook'' \<rparr>"

text \<open>Backends that answer every POST alike.\<close>

definition network_down :: "items_payload \<Rightarrow> pyerr + int" where
  "network_down p = Inl RequestException"

definition answers :: "int \<Rightarrow> items_payload \<Rightarrow> pyerr + int" where
  "answers code p = Inr code"

text \<open>A request backend that knows no movie and answers every POST with the given outcome.\<close>

definition unknown_movie :: "pyerr + int \<Rightarrow> overseerr_backend" where
  "unknown_movie outcome =
     \<lparr> get_movie = (\<lambda>i. Inr \<lparr> status_code = 404, json = Inl ValueError \<rparr>),
       post_request = (\<lambda>p. outcome) \<rparr>"

text \<open>A request backend that reports every movie with the given status.\<close>

definition known_movie :: "int \<Rightarrow> overseerr_backend" where
  "known_movie s =
     \<lparr> get_movie = (\<lambda>i. Inr \<lparr> status_code = 200,
                                json = Inr \<lparr> mediaInfo = Val \<lparr> status = Val s \<rparr> \<rparr> \<rparr>),
       post_request = (\<lambda>p. Inr 201) \<rparr>"

definition empty_config :: config where
  "empty_config = \<lparr> overseerr = Absent, riven = Absent, discord = Absent \<rparr>"

text \<open>A result map and a delivery function for the notification loop.\<close>

definition sample_results :: "string \<rightharpoonup> release_result" where
  "sample_results =
     [''1'' \<mapsto> [''overseerr'' \<mapsto> True, ''riven'' \<mapsto> False],
      ''2'' \<mapsto> [''overseerr'' \<mapsto> False],
      ''3'' \<mapsto> [''riven'' \<mapsto> True]]"

definition delivered :: "release \<Rightarrow> release_result \<Rightarrow> pyerr + bool" where
  "delivered r d = Inr True"

section \<open>Properties of the Release Checker\<close>

lemma get_default_simps:
  "get_default Absent d = Some d" "get_default Null d = None" "get_default (Val v) d = Some v"
  by (simp_all add: get_default_def)

lemma get_simps:
  "get Absent = None" "get Null = None" "get (Val v) = Some v"
  by (simp_all add: get_def)

lemma release_step_eq:
  "release_step co r (d, c) =
     (if digital r then
        (if truthy_seq (get_default (rd_release_date r) '''') \<and> \<not> truthy_seq d
         then map_option (take 10) (get_default (rd_release_date r) '''') else d,
         certification_policy_step c (co, get_default (rd_certification r) ''''))
      else (d, c))"
  by (simp add: release_step_def digital_def certification_policy_step_def Let_def)

lemma first_digital_date_Nil: "first_digital_date [] = None"
  by (simp add: first_digital_date_def)

lemma first_digital_date_Cons:
  "first_digital_date (x # ds) =
     (if truthy_seq x then map_option (take 10) x else first_digital_date ds)"
  by (simp add: first_digital_date_def)

lemma truthy_take10: "truthy_seq x \<Longrightarrow> truthy_seq (map_option (take 10) x)"
  by (cases x) (auto simp: truthy_seq_def)

lemma first_digital_date_truthy:
  "first_digital_date ds = Some x \<Longrightarrow> truthy_seq (Some x)"
proof (induction ds)
  case Nil
  then show ?case by (simp add: first_digital_date_Nil)
next
  case (Cons d ds)
  then show ?case using truthy_take10 [of d]
    by (auto simp: first_digital_date_Cons split: if_splits)
qed

lemma first_digital_date_append:
  "first_digital_date (xs @ ys) =
     (case first_digital_date xs of None \<Rightarrow> first_digital_date ys | Some x \<Rightarrow> Some x)"
proof (induction xs)
  case Nil
  show ?case by (simp add: first_digital_date_Nil)
next
  case (Cons x xs)
  show ?case
  proof (cases "truthy_seq x")
    case True
    then obtain s where "x = Some s" by (cases x) (auto simp: truthy_seq_def)
    with True show ?thesis by (simp add: first_digital_date_Cons)
  next
    case False
    with Cons show ?thesis by (simp add: first_digital_date_Cons)
  qed
qed

lemma fold_release_step:
  "fold (release_step co) rs (d, c) =
     (keep_or d (first_digital_date (map (\<lambda>r. get_default (rd_release_date r) '''') (filter digital rs))),
      foldl certification_policy_step c
        (map (\<lambda>r. (co, get_default (rd_certification r) '''')) (filter digital rs)))"
proof (induction rs arbitrary: d c)
  case Nil
  show ?case by (simp add: first_digital_date_def keep_or_def)
next
  case (Cons r rs)
  show ?case
    by (auto simp: release_step_eq Cons.IH first_digital_date_Cons truthy_take10 truthy_seq_def keep_or_def
        split: option.splits)
qed

lemma keep_or_keep_or:
  "keep_or (keep_or d (first_digital_date xs)) (first_digital_date ys) = keep_or d (first_digital_date (xs @ ys))"
  using first_digital_date_truthy [of xs]
  by (auto simp: keep_or_def first_digital_date_append split: option.splits)

lemma country_digital_simps:
  "release_dates x = Absent \<Longrightarrow> country_digital x = []"
  "release_dates x = Val rs \<Longrightarrow> country_digital x = filter digital rs"
  by (simp_all add: country_digital_def)

lemma country_loop_eq:
  "country_loop cs (d, c) =
     (if list_all (\<lambda>c. release_dates c \<noteq> Null) cs then
        Inr (keep_or d (first_digital_date
               (concat (map (\<lambda>c. map (\<lambda>r. get_default (rd_release_date r) '''') (country_digital c)) cs))),
             foldl certification_policy_step c (concat (map country_digital_certs cs)))
      else Inl TypeError)"
proof (induction cs arbitrary: d c)
  case Nil
  show ?case by (simp add: first_digital_date_Nil keep_or_def)
next
  case (Cons x cs)
  show ?case
  proof (cases "release_dates x")
    case Absent
    then show ?thesis
      using keep_or_keep_or [of d "[]"]
      by (simp add: ebind_def iter_def get_default_simps Cons.IH
          country_digital_simps country_digital_certs_def [of x] first_digital_date_Nil)
  next
    case Null
    then show ?thesis by (simp add: ebind_def iter_def get_default_simps)
  next
    case (Val rs)
    then show ?thesis
      by (simp add: ebind_def iter_def get_default_simps fold_release_step Cons.IH
          country_digital_simps country_digital_certs_def [of x] keep_or_keep_or)
  qed
qed

lemma find_digital_release_info_eq:
  "find_digital_release_info movie =
     (if release_dates_ok movie then
        Inr (first_digital_date (digital_dates movie),
             certification_policy (digital_certifications movie))
      else Inl (if m_release_dates movie = Null then AttributeError else TypeError))"
proof (cases "m_release_dates movie")
  case Absent
  then show ?thesis
    by (simp add: find_digital_release_info_def release_dates_ok_def ebind_def iter_def
        digital_dates_def digital_certifications_def country_entries_def certification_policy_def
        first_digital_date_Nil)
next
  case Null
  then show ?thesis
    by (simp add: find_digital_release_info_def release_dates_ok_def ebind_def)
next
  case (Val obj)
  then show ?thesis
    by (cases "country_results obj")
      (simp_all add: find_digital_release_info_def release_dates_ok_def ebind_def iter_def
        get_default_simps country_loop_eq digital_dates_def digital_certifications_def
        country_entries_def certification_policy_def first_digital_date_Nil keep_or_def
        truthy_seq_def split: option.splits)
qed


lemma certification_policy_snoc:
  "certification_policy (es @ [(country, cert)]) =
     (if \<not> truthy_seq cert then certification_policy es
      else if country = Some ''US'' then cert
      else if truthy_seq (certification_policy es) then certification_policy es
      else cert)"
  by (simp add: certification_policy_def certification_policy_step_def)

lemma certification_policy_none:
  "list_all (\<lambda>e. \<not> truthy_seq (snd e)) es \<Longrightarrow> foldl certification_policy_step acc es = acc"
  by (induction es arbitrary: acc) (auto simp: certification_policy_step_def)

lemmas release_checker_defs =
  find_digital_release_info_def movie_with_def digital_cert_def ebind_def iter_def
  get_default_def get_def release_step_def truthy_seq_def RELEASE_TYPE_DIGITAL_def

lemmas policy_defs =
  release_dates_ok_def country_entries_def digital_certifications_def country_digital_certs_def
  country_digital_def digital_def certification_policy_def certification_policy_step_def
  digital_dates_def first_digital_date_def

text \<open>
  Claim C1. Whenever \<open>_find_digital_release_info\<close> returns, its certification is the one the
  tie-break policy yields on the digital entries in catalog order (a non-empty "US"
  certification overwrites, a non-empty certification of another country is recorded only when
  none is recorded yet), and it returns whenever the release-dates structure can be walked.
  The entries [("FR","12"), ("US","R")] resolve to "R" and [("FR","12")] alone to "12".
\<close>

theorem certification_tie_break:
  "(release_dates_ok movie \<longrightarrow>
      (\<exists>d. find_digital_release_info movie =
             Inr (d, certification_policy (digital_certifications movie))))
   \<and> (\<forall>d c. find_digital_release_info movie = Inr (d, c) \<longrightarrow>
         c = certification_policy (digital_certifications movie))
   \<and> find_digital_release_info (movie_with (map digital_cert [(''FR'', ''12''), (''US'', ''R'')]))
       = Inr (None, Some ''R'')
   \<and> find_digital_release_info (movie_with (map digital_cert [(''FR'', ''12'')]))
       = Inr (None, Some ''12'')"
proof (intro conjI)
  show "release_dates_ok movie \<longrightarrow>
      (\<exists>d. find_digital_release_info movie =
             Inr (d, certification_policy (digital_certifications movie)))"
    by (simp add: find_digital_release_info_eq)
  show "\<forall>d c. find_digital_release_info movie = Inr (d, c) \<longrightarrow>
         c = certification_policy (digital_certifications movie)"
    by (simp add: find_digital_release_info_eq split: if_splits)
  show "find_digital_release_info (movie_with (map digital_cert [(''FR'', ''12''), (''US'', ''R'')]))
       = Inr (None, Some ''R'')"
    by (simp add: release_checker_defs)
  show "find_digital_release_info (movie_with (map digital_cert [(''FR'', ''12'')]))
       = Inr (None, Some ''12'')"
    by (simp add: release_checker_defs)
qed

theorem certification_tie_break_witness:
  "release_dates_ok (movie_with (map digital_cert [(''US'', ''PG-13''), (''GB'', ''12A'')]))
   \<and> find_digital_release_info (movie_with (map digital_cert [(''US'', ''PG-13''), (''GB'', ''12A'')]))
       = Inr (None, Some ''PG-13'')
   \<and> certification_policy
        (digital_certifications (movie_with (map digital_cert [(''US'', ''PG-13''), (''GB'', ''12A'')])))
       = Some ''PG-13''"
  using certification_tie_break [of "movie_with (map digital_cert [(''US'', ''PG-13''), (''GB'', ''12A'')])"]
  by (simp add: release_checker_defs policy_defs)
lemma entry_simps: "entry None = Null" "entry (Some x) = Val x"
  by (simp_all add: entry_def)

lemma get_movie_with_release_dates_returns:
  "(\<exists>r. get_movie_with_release_dates (Inr movie) = Some r) \<longleftrightarrow>
     release_dates_ok movie \<and> m_genres movie \<noteq> Null"
  by (cases "m_genres movie")
    (simp_all add: get_movie_with_release_dates_def find_digital_release_info_eq ebind_def iter_def
      get_default_simps)

lemma get_movie_with_release_dates_fields:
  assumes "get_movie_with_release_dates (Inr movie) = Some r"
  shows "release_date r =
           entry (if truthy_seq (first_digital_date (digital_dates movie))
                  then first_digital_date (digital_dates movie) else get (m_release_date movie))"
    and "certification r = entry (certification_policy (digital_certifications movie))"
  using assms
  by (auto simp: get_movie_with_release_dates_def find_digital_release_info_eq ebind_def iter_def
      split: if_splits sum.splits option.splits)

text \<open>
  Claim C6. The release built from a detail record carries, as its release date, the first
  non-empty release date among the digital entries in catalog order, cut to its first ten
  characters; when no digital entry yields a date it carries the record's generic release date
  (\<open>None\<close> when there is none). When no digital entry has a non-empty certification the
  certification is \<open>None\<close>. The release is built whenever the release-dates structure and the
  genre list can be walked.
\<close>

theorem digital_release_date_resolution:
  "(release_dates_ok movie \<and> m_genres movie \<noteq> Null \<longrightarrow>
      (\<exists>r. get_movie_with_release_dates (Inr movie) = Some r))
   \<and> (\<forall>r. get_movie_with_release_dates (Inr movie) = Some r \<longrightarrow>
         release_date r =
           (case first_digital_date (digital_dates movie) of
              Some d \<Rightarrow> Val d
            | None \<Rightarrow> entry (get (m_release_date movie)))
         \<and> (list_all (\<lambda>e. \<not> truthy_seq (snd e)) (digital_certifications movie) \<longrightarrow>
              certification r = Null))"
proof (intro conjI allI impI)
  assume "release_dates_ok movie \<and> m_genres movie \<noteq> Null"
  then show "\<exists>r. get_movie_with_release_dates (Inr movie) = Some r"
    by (simp add: get_movie_with_release_dates_returns)
next
  fix r
  assume r: "get_movie_with_release_dates (Inr movie) = Some r"
  show "release_date r =
          (case first_digital_date (digital_dates movie) of
             Some d \<Rightarrow> Val d
           | None \<Rightarrow> entry (get (m_release_date movie)))"
  proof (cases "first_digital_date (digital_dates movie)")
    case None
    then show ?thesis
      by (simp add: get_movie_with_release_dates_fields(1) [OF r] truthy_seq_def)
  next
    case (Some d)
    then have "truthy_seq (Some d)" by (rule first_digital_date_truthy)
    with Some show ?thesis
      by (simp add: get_movie_with_release_dates_fields(1) [OF r] entry_simps)
  qed
next
  fix r
  assume r: "get_movie_with_release_dates (Inr movie) = Some r"
    and none: "list_all (\<lambda>e. \<not> truthy_seq (snd e)) (digital_certifications movie)"
  from none have "certification_policy (digital_certifications movie) = None"
    unfolding certification_policy_def by (rule certification_policy_none)
  then show "certification r = Null"
    by (simp add: get_movie_with_release_dates_fields(2) [OF r] entry_simps)
qed

theorem digital_release_date_resolution_witness:
  "release_dates_ok sample_movie \<and> m_genres sample_movie \<noteq> Null
   \<and> (\<exists>r. get_movie_with_release_dates (Inr sample_movie) = Some r
          \<and> release_date r = Val ''2026-01-10'' \<and> certification r = Null)
   \<and> (\<exists>r. get_movie_with_release_dates (Inr (sample_movie \<lparr> m_release_dates := Absent \<rparr>)) = Some r
          \<and> release_date r = Val ''2025-12-25'' \<and> certification r = Null)"
proof -
  let ?m = "sample_movie \<lparr> m_release_dates := Absent \<rparr>"
  have ok: "release_dates_ok sample_movie \<and> m_genres sample_movie \<noteq> Null"
    by (simp add: sample_movie_def policy_defs)
  have ok': "release_dates_ok ?m \<and> m_genres ?m \<noteq> Null"
    by (simp add: sample_movie_def policy_defs)
  have d: "first_digital_date (digital_dates sample_movie) = Some ''2026-01-10''"
    by (simp add: sample_movie_def policy_defs get_default_def get_def truthy_seq_def
        RELEASE_TYPE_DIGITAL_def)
  have c: "list_all (\<lambda>e. \<not> truthy_seq (snd e)) (digital_certifications sample_movie)"
    by (simp add: sample_movie_def policy_defs get_default_def get_def truthy_seq_def
        RELEASE_TYPE_DIGITAL_def)
  have d': "first_digital_date (digital_dates ?m) = None"
    by (simp add: sample_movie_def policy_defs)
  have c': "list_all (\<lambda>e. \<not> truthy_seq (snd e)) (digital_certifications ?m)"
    by (simp add: sample_movie_def policy_defs)
  have g: "entry (get (m_release_date ?m)) = Val ''2025-12-25''"
    by (simp add: sample_movie_def entry_def get_def)
  show ?thesis
    using digital_release_date_resolution [of sample_movie]
      digital_release_date_resolution [of ?m] ok ok' d c d' c' g
    by auto
qed

section \<open>Properties of the Filter Engine\<close>

lemma ebind_simps: "ebind (Inl e) f = Inl e" "ebind (Inr x) f = f x"
  by (simp_all add: ebind_def)

lemma ebind_Inr_iff: "ebind m f = Inr y \<longleftrightarrow> (\<exists>x. m = Inr x \<and> f x = Inr y)"
  by (cases m) (simp_all add: ebind_def)


lemma filter_raising_total:
  "(\<forall>x \<in> set xs. \<exists>b. keep x = Inr b) \<Longrightarrow> filter_raising keep xs = Inr (filter (\<lambda>x. keep x = Inr True) xs)"
  by (induction xs) (auto simp: ebind_simps)


lemma filter_raising_defined:
  "filter_raising keep xs = Inr ys \<Longrightarrow> x \<in> set xs \<Longrightarrow> \<exists>b. keep x = Inr b"
  by (induction xs arbitrary: ys) (auto simp: ebind_Inr_iff)



























lemmas filter_defs =
  apply_filters_def adult_stage_def rating_stage_def languages_stage_def genres_stage_def
  certifications_stage_def filter_adult_def filter_by_tmdb_rating_def
  filter_by_allowed_languages_def filter_by_excluded_genres_def has_excluded_genre_def
  filter_by_excluded_certifications_def has_excluded_certification_def
  py_gt_def py_ge_def py_in_def ebind_def iter_def get_def get_default_def truthy_bool_def
  truthy_seq_def lower_def upper_def lower_char_def upper_char_def isascii_def
  ascii_lowercase_def ascii_uppercase_def
  empty_release_def no_filters_def fixed_order_def









lemma languages_stage_eq:
  "languages_stage f releases =
     Inr (if truthy_seq (get_default (allowed_languages f) [])
          then filter (language_allowed (case allowed_languages f of Val ls \<Rightarrow> ls | _ \<Rightarrow> [])) releases
          else releases)"
  by (cases "allowed_languages f")
    (auto simp: languages_stage_def get_default_def truthy_seq_def filter_by_allowed_languages_def
      language_allowed_def py_in_def intro!: filter_cong split: field.splits)

lemma filter_by_tmdb_rating_ignores_languages:
  "filter_by_tmdb_rating (f \<lparr> allowed_languages := a \<rparr>) xs = filter_by_tmdb_rating f xs"
  by (simp add: filter_by_tmdb_rating_def)

lemma other_stages_ignore_languages:
  "adult_stage (f \<lparr> allowed_languages := a \<rparr>) xs = adult_stage f xs"
  "rating_stage (f \<lparr> allowed_languages := a \<rparr>) xs = rating_stage f xs"
  "genres_stage u (f \<lparr> allowed_languages := a \<rparr>) xs = genres_stage u f xs"
  "certifications_stage u (f \<lparr> allowed_languages := a \<rparr>) xs = certifications_stage u f xs"
  by (simp_all add: adult_stage_def rating_stage_def genres_stage_def certifications_stage_def
      filter_by_tmdb_rating_ignores_languages cong: if_cong)

text \<open>
  Claim C5. When the allow-list is missing, \<open>None\<close> or empty, the language block of
  \<open>apply_filters\<close> leaves the list as it is, and \<open>apply_filters\<close> gives what it gives without
  the setting. When the allow-list is non-empty, exactly the releases whose language is in it
  are kept, in order. With the allow-list ["en"] a release with the empty language is dropped.
\<close>

theorem allowed_languages_filter:
  "(\<not> truthy_seq (get_default (allowed_languages f) []) \<longrightarrow>
      languages_stage f releases = Inr releases
      \<and> apply_filters u f releases = apply_filters u (f \<lparr> allowed_languages := Absent \<rparr>) releases)
   \<and> (\<forall>allowed_langs. allowed_languages f = Val allowed_langs \<and> allowed_langs \<noteq> [] \<longrightarrow>
         languages_stage f releases = Inr (filter (language_allowed allowed_langs) releases)
         \<and> filter_by_allowed_languages releases allowed_langs
             = filter (language_allowed allowed_langs) releases)
   \<and> apply_filters u (no_filters \<lparr> allowed_languages := Val [''en''] \<rparr>) [spoken (Val '''')] = Inr []"
proof (intro conjI allI impI)
  assume off: "\<not> truthy_seq (get_default (allowed_languages f) [])"
  then show "languages_stage f releases = Inr releases"
    by (simp add: languages_stage_eq)
  have "languages_stage f xs = languages_stage (f \<lparr> allowed_languages := Absent \<rparr>) xs" for xs
    using off by (simp add: languages_stage_eq get_default_def truthy_seq_def)
  then show "apply_filters u f releases = apply_filters u (f \<lparr> allowed_languages := Absent \<rparr>) releases"
    by (simp add: apply_filters_def other_stages_ignore_languages)
next
  fix allowed_langs
  assume on: "allowed_languages f = Val allowed_langs \<and> allowed_langs \<noteq> []"
  then show "languages_stage f releases = Inr (filter (language_allowed allowed_langs) releases)"
    by (simp add: languages_stage_eq get_default_def truthy_seq_def)
  show "filter_by_allowed_languages releases allowed_langs
             = filter (language_allowed allowed_langs) releases"
    by (auto simp: filter_by_allowed_languages_def language_allowed_def py_in_def get_default_def
        intro!: filter_cong split: field.splits)
next
  show "apply_filters u (no_filters \<lparr> allowed_languages := Val [''en''] \<rparr>) [spoken (Val '''')] = Inr []"
    by (simp add: filter_defs spoken_def)
qed

theorem allowed_languages_filter_witness:
  "\<not> truthy_seq (get_default (allowed_languages (no_filters \<lparr> allowed_languages := Val [] \<rparr>)) [])
   \<and> languages_stage (no_filters \<lparr> allowed_languages := Val [] \<rparr>)
        [spoken (Val ''de''), spoken (Val '''')] = Inr [spoken (Val ''de''), spoken (Val '''')]
   \<and> languages_stage (no_filters \<lparr> allowed_languages := Val [''en'', ''fr''] \<rparr>)
        [spoken (Val ''en''), spoken (Val ''de''), spoken Null, spoken (Val ''fr''), spoken Absent]
      = Inr [spoken (Val ''en''), spoken (Val ''fr'')]"
proof -
  let ?rs = "[spoken (Val ''en''), spoken (Val ''de''), spoken Null, spoken (Val ''fr''), spoken Absent]"
  have off: "\<not> truthy_seq (get_default (allowed_languages (no_filters \<lparr> allowed_languages := Val [] \<rparr>)) [])"
    by (simp add: no_filters_def get_default_def truthy_seq_def)
  have on: "allowed_languages (no_filters \<lparr> allowed_languages := Val [''en'', ''fr''] \<rparr>) = Val [''en'', ''fr'']
      \<and> [''en'', ''fr''] \<noteq> []"
    by (simp add: no_filters_def)
  have keep: "filter (language_allowed [''en'', ''fr'']) ?rs = [spoken (Val ''en''), spoken (Val ''fr'')]"
    by (simp add: language_allowed_def spoken_def empty_release_def)
  from allowed_languages_filter
    [of "no_filters \<lparr> allowed_languages := Val [] \<rparr>" "[spoken (Val ''de''), spoken (Val '''')]"] off
  have a: "languages_stage (no_filters \<lparr> allowed_languages := Val [] \<rparr>)
        [spoken (Val ''de''), spoken (Val '''')] = Inr [spoken (Val ''de''), spoken (Val '''')]"
    by blast
  from allowed_languages_filter
    [of "no_filters \<lparr> allowed_languages := Val [''en'', ''fr''] \<rparr>" ?rs] on
  have "languages_stage (no_filters \<lparr> allowed_languages := Val [''en'', ''fr''] \<rparr>) ?rs
      = Inr (filter (language_allowed [''en'', ''fr'']) ?rs)"
    by blast
  with keep off a show ?thesis by simp
qed

section \<open>Properties of the sinks\<close>

lemma is_already_requested_iff:
  "is_already_requested backend i \<longleftrightarrow> reported_requested backend i"
  by (auto simp: is_already_requested_def reported_requested_def ebind_def section_key_def
      get_def truthy_int_def split: sum.splits field.splits)

text \<open>
  Claim C2. For a release with a non-zero \<open>tmdb_id\<close> (the sink's own test for having one)
  that the status check does not report as requested, \<open>request_media\<close> posts the payload once
  and returns \<open>True\<close> exactly when the answer is a response with status 200, 201 or 409; any
  other status and any exception of the POST give \<open>False\<close>. When the status check reports a
  status of 2 or more, \<open>request_media\<close> returns \<open>False\<close> and posts nothing. The function returns
  a boolean in every case: each exception of the body is turned into \<open>False\<close>.
\<close>

theorem request_media_outcome:
  "(tmdb_id release = Val i \<and> i \<noteq> 0 \<and> \<not> reported_requested backend i \<longrightarrow>
      (fst (request_media backend release) \<longleftrightarrow>
         post_request backend \<lparr> mediaId = i, mediaType = ''movie'' \<rparr> \<in> {Inr 200, Inr 201, Inr 409})
      \<and> snd (request_media backend release) = [\<lparr> mediaId = i, mediaType = ''movie'' \<rparr>])
   \<and> (tmdb_id release = Val i \<and> i \<noteq> 0 \<and> reported_requested backend i \<longrightarrow>
        request_media backend release = (False, []))
   \<and> (is_already_requested backend i \<longleftrightarrow> reported_requested backend i)"
  by (auto simp: request_media_def get_def is_already_requested_iff Let_def split: sum.splits)


lemmas sink_defs =
  request_media_def is_already_requested_def reported_requested_def add_items_def add_media_def
  riven_is_enabled_def discord_is_enabled_def section_key_def ebind_def get_def get_default_def
  truthy_int_def truthy_seq_def truthy_bool_def movie_release_def tv_release_def
  empty_release_def riven_on_def discord_on_def network_down_def answers_def unknown_movie_def
  known_movie_def empty_config_def

theorem request_media_outcome_witness:
  "tmdb_id (movie_release (Val 123)) = Val 123 \<and> (123::int) \<noteq> 0
   \<and> \<not> reported_requested (unknown_movie (Inr 409)) 123
   \<and> request_media (unknown_movie (Inr 409)) (movie_release (Val 123))
       = (True, [\<lparr> mediaId = 123, mediaType = ''movie'' \<rparr>])
   \<and> request_media (unknown_movie (Inr 500)) (movie_release (Val 123))
       = (False, [\<lparr> mediaId = 123, mediaType = ''movie'' \<rparr>])
   \<and> request_media (unknown_movie (Inl RequestException)) (movie_release (Val 123))
       = (False, [\<lparr> mediaId = 123, mediaType = ''movie'' \<rparr>])
   \<and> reported_requested (known_movie 2) 123
   \<and> request_media (known_movie 2) (movie_release (Val 123)) = (False, [])"
proof -
  have id: "tmdb_id (movie_release (Val 123)) = Val 123 \<and> (123::int) \<noteq> 0"
    by (simp add: movie_release_def empty_release_def)
  have no: "\<not> reported_requested (unknown_movie outcome) 123" for outcome
    by (simp add: reported_requested_def unknown_movie_def)
  have yes: "reported_requested (known_movie 2) 123"
    by (simp add: reported_requested_def known_movie_def)
  have p: "post_request (unknown_movie outcome) q = outcome" for outcome q
    by (simp add: unknown_movie_def)
  have a: "request_media (unknown_movie (Inr 409)) (movie_release (Val 123))
       = (True, [\<lparr> mediaId = 123, mediaType = ''movie'' \<rparr>])"
    using request_media_outcome [of "movie_release (Val 123)" 123 "unknown_movie (Inr 409)"] id no
    by (simp add: p prod_eq_iff)
  have b: "request_media (unknown_movie (Inr 500)) (movie_release (Val 123))
       = (False, [\<lparr> mediaId = 123, mediaType = ''movie'' \<rparr>])"
    using request_media_outcome [of "movie_release (Val 123)" 123 "unknown_movie (Inr 500)"] id no
    by (simp add: p prod_eq_iff)
  have c: "request_media (unknown_movie (Inl RequestException)) (movie_release (Val 123))
       = (False, [\<lparr> mediaId = 123, mediaType = ''movie'' \<rparr>])"
    using request_media_outcome
      [of "movie_release (Val 123)" 123 "unknown_movie (Inl RequestException)"] id no
    by (simp add: p prod_eq_iff)
  have d: "request_media (known_movie 2) (movie_release (Val 123)) = (False, [])"
    using request_media_outcome [of "movie_release (Val 123)" 123 "known_movie 2"] id yes
    by simp
  from id no yes a b c d show ?thesis by simp
qed

lemma add_items_ids:
  "map (\<lambda>r. case get (tmdb_id r) of None \<Rightarrow> ''None'' | Some i \<Rightarrow> str_int i)
     (filter (\<lambda>r. truthy_int (get (tmdb_id r))) (filter (\<lambda>r. get (type r) = Some ''movie'') releases))
   = submitted_ids releases"
proof -
  have m: "(get (type r) = Some ''movie'') = is_movie r" for r
    by (cases "type r") (simp_all add: get_def is_movie_def)
  have c: "truthy_int (get (tmdb_id r)) = carries_id r" for r
    by (cases "tmdb_id r") (simp_all add: get_def truthy_int_def carries_id_def)
  have s: "carries_id r \<Longrightarrow>
      (case get (tmdb_id r) of None \<Rightarrow> ''None'' | Some i \<Rightarrow> str_int i)
      = (case tmdb_id r of Val i \<Rightarrow> str_int i | _ \<Rightarrow> [])" for r
    by (cases "tmdb_id r") (simp_all add: get_def carries_id_def)
  show ?thesis
    unfolding submitted_ids_def m c by (auto simp: s conj_commute intro!: map_cong)
qed

lemma add_items_eq:
  assumes "\<forall>r \<in> set releases. is_movie r"
  shows "add_items post ''movie'' releases =
     (let ids = submitted_ids releases; payload = \<lparr> media_type = ''movie'', tmdb_ids = ids \<rparr>
      in if ids = [] then (\<lparr> success = 0, failed = length releases, results = [] \<rparr>, [])
         else (case post payload of
                 Inl e \<Rightarrow> (\<lparr> success = 0, failed = length releases, results = [Raised e] \<rparr>, [payload])
               | Inr code \<Rightarrow>
                   if code = 200 then (\<lparr> success = length ids, failed = 0, results = [Added ids] \<rparr>, [payload])
                   else (\<lparr> success = 0, failed = length ids,
                           results = [Status_error code (if code = 404 then Some ''Not found''
                                        else if code = 422 then Some ''Validation error'' else None)] \<rparr>,
                         [payload])))"
proof -
  from assms have "filter (\<lambda>r. get (type r) = Some ''movie'') releases = releases"
    by (induction releases) (auto simp: is_movie_def get_def)
  with add_items_ids [of releases]
  have "map (\<lambda>r. case get (tmdb_id r) of None \<Rightarrow> ''None'' | Some i \<Rightarrow> str_int i)
     (filter (\<lambda>r. truthy_int (get (tmdb_id r))) releases) = submitted_ids releases"
    by simp
  then show ?thesis
    by (simp add: add_items_def Let_def split: sum.splits)
qed

lemma submitted_ids_movies: "submitted_ids (filter is_movie releases) = submitted_ids releases"
  by (simp add: submitted_ids_def conj_commute cong: conj_cong)

lemma length_submitted_ids:
  "length (submitted_ids releases) = length (filter (\<lambda>r. is_movie r \<and> carries_id r) releases)"
  by (simp add: submitted_ids_def)

lemma add_media_eq:
  assumes "riven_is_enabled self"
  shows "add_media self post releases =
     (if filter is_movie releases = [] then (\<lparr> success = 0, failed = 0, results = [] \<rparr>, [])
      else add_items post ''movie'' (filter is_movie releases))"
proof -
  have "(\<lambda>r. get (type r) = Some ''movie'') = is_movie"
  proof
    fix r show "(get (type r) = Some ''movie'') = is_movie r"
      by (cases "type r") (simp_all add: get_def is_movie_def)
  qed
  with assms show ?thesis by (simp add: add_media_def Let_def)
qed

text \<open>
  Claim C3. For a non-empty list of movie releases that all carry an identifier, \<open>_add_items\<close>
  posts one payload with all the identifiers; a 200 response counts all of them as success and
  none as failed, every other response and every exception counts none as success and all of
  them as failed. An enabled sink's \<open>add_media\<close> is \<open>_add_items\<close> on such a list. The function
  returns a result in every case.
\<close>

theorem bulk_ingest_all_or_nothing:
  "(releases \<noteq> [] \<and> (\<forall>r \<in> set releases. is_movie r \<and> carries_id r) \<longrightarrow>
      (let ids = submitted_ids releases;
           payload = \<lparr> media_type = ''movie'', tmdb_ids = ids \<rparr>;
           result = fst (add_items post ''movie'' releases)
       in length ids = length releases
          \<and> snd (add_items post ''movie'' releases) = [payload]
          \<and> (post payload = Inr 200 \<longrightarrow> success result = length ids \<and> failed result = 0)
          \<and> (post payload \<noteq> Inr 200 \<longrightarrow> success result = 0 \<and> failed result = length ids)
          \<and> (riven_is_enabled self \<longrightarrow>
               add_media self post releases = add_items post ''movie'' releases)))"
proof (intro impI)
  assume a: "releases \<noteq> [] \<and> (\<forall>r \<in> set releases. is_movie r \<and> carries_id r)"
  then have all: "filter (\<lambda>r. is_movie r \<and> carries_id r) releases = releases"
    and movies: "filter is_movie releases = releases"
    and m: "\<forall>r \<in> set releases. is_movie r"
    by (auto intro: filter_True)
  from all have len: "length (submitted_ids releases) = length releases"
    by (simp add: length_submitted_ids)
  with a have ne: "submitted_ids releases \<noteq> []" by auto
  show "let ids = submitted_ids releases;
           payload = \<lparr> media_type = ''movie'', tmdb_ids = ids \<rparr>;
           result = fst (add_items post ''movie'' releases)
       in length ids = length releases
          \<and> snd (add_items post ''movie'' releases) = [payload]
          \<and> (post payload = Inr 200 \<longrightarrow> success result = length ids \<and> failed result = 0)
          \<and> (post payload \<noteq> Inr 200 \<longrightarrow> success result = 0 \<and> failed result = length ids)
          \<and> (riven_is_enabled self \<longrightarrow>
               add_media self post releases = add_items post ''movie'' releases)"
    using a len ne movies
    by (auto simp: Let_def add_items_eq [OF m] add_media_eq split: sum.splits)
qed

theorem bulk_ingest_all_or_nothing_witness:
  "[movie_release (Val 123), movie_release (Val 456)] \<noteq> []
   \<and> is_movie (movie_release (Val 123)) \<and> carries_id (movie_release (Val 123))
   \<and> is_movie (movie_release (Val 456)) \<and> carries_id (movie_release (Val 456))
   \<and> success (fst (add_items (answers 200) ''movie'' [movie_release (Val 123), movie_release (Val 456)])) = 2
   \<and> failed (fst (add_items (answers 200) ''movie'' [movie_release (Val 123), movie_release (Val 456)])) = 0
   \<and> success (fst (add_items (answers 404) ''movie'' [movie_release (Val 123), movie_release (Val 456)])) = 0
   \<and> failed (fst (add_items (answers 404) ''movie'' [movie_release (Val 123), movie_release (Val 456)])) = 2
   \<and> success (fst (add_items network_down ''movie'' [movie_release (Val 123), movie_release (Val 456)])) = 0
   \<and> failed (fst (add_items network_down ''movie'' [movie_release (Val 123), movie_release (Val 456)])) = 2"
proof -
  let ?rs = "[movie_release (Val 123), movie_release (Val 456)]"
  have h: "?rs \<noteq> [] \<and> (\<forall>r \<in> set ?rs. is_movie r \<and> carries_id r)"
    by (simp add: movie_release_def empty_release_def is_movie_def carries_id_def)
  have p: "answers code q = Inr code" "network_down q \<noteq> Inr 200" for code q
    by (simp_all add: answers_def network_down_def)
  have m: "is_movie (movie_release (Val 123)) \<and> carries_id (movie_release (Val 123))
      \<and> is_movie (movie_release (Val 456)) \<and> carries_id (movie_release (Val 456))"
    using h by simp
  from bulk_ingest_all_or_nothing [of ?rs "answers 200"]
    bulk_ingest_all_or_nothing [of ?rs "answers 404"]
    bulk_ingest_all_or_nothing [of ?rs network_down] h m
  show ?thesis by (simp add: Let_def p)
qed

text \<open>
  Claim C10 as stated fails: when the POST raises, \<open>failed\<close> is the length of the whole list
  although a release of the list carries an identifier.
\<close>

theorem add_media_failed_full_length_counterexample:
  "failed (fst (add_media riven_on network_down [movie_release (Val 1), movie_release Absent]))
     = length [movie_release (Val 1), movie_release Absent]
   \<and> carries_id (movie_release (Val 1))"
  by (simp add: sink_defs carries_id_def Let_def)

text \<open>
  Claim C10, amended. An enabled sink submits the identifiers of exactly the movie releases
  that carry one; on a 200 response \<open>success\<close> is their number and \<open>failed\<close> is 0, and
  \<open>success + failed\<close> can be less than the number of releases given. \<open>failed\<close> is the length of
  the whole movie list when no movie release carries an identifier and also when the POST
  raises; on a response other than 200 it is the number of submitted identifiers.
\<close>

theorem add_media_counts:
  "(riven_is_enabled self \<longrightarrow>
      (let ids = submitted_ids releases;
           movies = filter is_movie releases;
           payload = \<lparr> media_type = ''movie'', tmdb_ids = ids \<rparr>;
           result = fst (add_media self post releases)
       in snd (add_media self post releases) = (if ids = [] then [] else [payload])
          \<and> length ids = length (filter (\<lambda>r. is_movie r \<and> carries_id r) releases)
          \<and> (ids \<noteq> [] \<and> post payload = Inr 200 \<longrightarrow>
               success result = length ids \<and> failed result = 0)
          \<and> failed result =
               (if ids = [] then length movies
                else (case post payload of
                        Inl e \<Rightarrow> length movies
                      | Inr code \<Rightarrow> if code = 200 then 0 else length ids))))
   \<and> success (fst (add_media riven_on (answers 200) [movie_release (Val 1), tv_release (Val 2)]))
       + failed (fst (add_media riven_on (answers 200) [movie_release (Val 1), tv_release (Val 2)]))
       < length [movie_release (Val 1), tv_release (Val 2)]"
proof (intro conjI impI)
  assume on: "riven_is_enabled self"
  have m: "\<forall>r \<in> set (filter is_movie releases). is_movie r" by simp
  have e: "filter is_movie releases = [] \<Longrightarrow> submitted_ids releases = []"
    using submitted_ids_movies [of releases] by (simp add: submitted_ids_def)
  show "let ids = submitted_ids releases;
           movies = filter is_movie releases;
           payload = \<lparr> media_type = ''movie'', tmdb_ids = ids \<rparr>;
           result = fst (add_media self post releases)
       in snd (add_media self post releases) = (if ids = [] then [] else [payload])
          \<and> length ids = length (filter (\<lambda>r. is_movie r \<and> carries_id r) releases)
          \<and> (ids \<noteq> [] \<and> post payload = Inr 200 \<longrightarrow>
               success result = length ids \<and> failed result = 0)
          \<and> failed result =
               (if ids = [] then length movies
                else (case post payload of
                        Inl e \<Rightarrow> length movies
                      | Inr code \<Rightarrow> if code = 200 then 0 else length ids))"
    using e
    by (auto simp: Let_def add_media_eq [OF on] add_items_eq [OF m] submitted_ids_movies
        length_submitted_ids split: sum.splits)
next
  show "success (fst (add_media riven_on (answers 200) [movie_release (Val 1), tv_release (Val 2)]))
       + failed (fst (add_media riven_on (answers 200) [movie_release (Val 1), tv_release (Val 2)]))
       < length [movie_release (Val 1), tv_release (Val 2)]"
    by (simp add: sink_defs Let_def)
qed

theorem add_media_counts_witness:
  "riven_is_enabled riven_on
   \<and> snd (add_media riven_on (answers 200)
            [movie_release (Val 7), tv_release (Val 8), movie_release Null, movie_release (Val 9)])
       = [\<lparr> media_type = ''movie'', tmdb_ids = [''7'', ''9''] \<rparr>]
   \<and> success (fst (add_media riven_on (answers 200)
            [movie_release (Val 7), tv_release (Val 8), movie_release Null, movie_release (Val 9)])) = 2
   \<and> failed (fst (add_media riven_on (answers 200)
            [movie_release (Val 7), tv_release (Val 8), movie_release Null, movie_release (Val 9)])) = 0"
proof -
  let ?rs = "[movie_release (Val 7), tv_release (Val 8), movie_release Null, movie_release (Val 9)]"
  have on: "riven_is_enabled riven_on"
    by (simp add: riven_is_enabled_def riven_on_def truthy_seq_def)
  have ids: "submitted_ids ?rs = [''7'', ''9'']"
    by (simp add: submitted_ids_def is_movie_def carries_id_def movie_release_def tv_release_def
        empty_release_def str_int_def)
  have p: "answers 200 q = Inr 200" for q by (simp add: answers_def)
  from add_media_counts [of riven_on ?rs "answers 200"] on ids p
  show ?thesis by (simp add: Let_def)
qed

lemma OverseerrRequester_init_missing:
  "missing (overseerr cfg) api_key \<Longrightarrow> OverseerrRequester_init cfg = Inl ValueError"
  by (cases "overseerr cfg")
    (auto simp: missing_def OverseerrRequester_init_def section_key_def ebind_def Let_def
      get_default_def truthy_seq_def)

lemma RivenRequester_init_returns:
  "riven cfg \<noteq> Null \<Longrightarrow>
     \<exists>self. RivenRequester_init cfg = Inr self
       \<and> (riven_is_enabled self \<longleftrightarrow> \<not> missing (riven cfg) api_key \<and> \<not> blank (riven cfg) api_url)"
proof (cases "riven cfg")
  case Absent
  then show ?thesis
    by (simp add: RivenRequester_init_def section_key_def ebind_def get_default_def
        riven_is_enabled_def truthy_seq_def missing_def blank_def)
next
  case Null
  assume "riven cfg \<noteq> Null"
  with Null show ?thesis by simp
next
  case (Val s)
  then show ?thesis
    by (cases "api_key s"; cases "api_url s")
      (simp_all add: RivenRequester_init_def section_key_def ebind_def get_default_def
        riven_is_enabled_def truthy_seq_def missing_def blank_def)
qed

lemma DiscordNotifier_init_returns:
  "discord cfg \<noteq> Null \<Longrightarrow>
     \<exists>self. DiscordNotifier_init cfg = Inr self
       \<and> (discord_is_enabled self \<longleftrightarrow> \<not> missing (discord cfg) webhook_url)"
proof (cases "discord cfg")
  case Absent
  then show ?thesis
    by (simp add: DiscordNotifier_init_def section_key_def ebind_def get_default_def
        discord_is_enabled_def truthy_seq_def missing_def)
next
  case Null
  assume "discord cfg \<noteq> Null"
  with Null show ?thesis by simp
next
  case (Val s)
  then show ?thesis
    by (cases "webhook_url s")
      (simp_all add: DiscordNotifier_init_def section_key_def ebind_def get_default_def
        discord_is_enabled_def truthy_seq_def missing_def)
qed

text \<open>
  Claim C8. With the API key missing (section missing, or key missing, \<open>None\<close> or empty) the
  construction of the minimal-request sink raises \<open>ValueError\<close>, and with a section that is
  \<open>None\<close> it raises \<open>AttributeError\<close>. The bulk-ingest sink and the
  notification sink are constructed from every configuration whose section is missing or a
  mapping; the bulk-ingest sink is enabled exactly when its credential is not missing and its
  endpoint is not blank (a missing endpoint reads as the default URL), and with a missing
  credential or webhook URL the two sinks report that they are not enabled.
\<close>

theorem sink_construction:
  "(missing (overseerr cfg) api_key \<longrightarrow> OverseerrRequester_init cfg = Inl ValueError)
   \<and> (overseerr cfg = Null \<longrightarrow> OverseerrRequester_init cfg = Inl AttributeError)
   \<and> (riven cfg \<noteq> Null \<longrightarrow>
        (\<exists>self. RivenRequester_init cfg = Inr self
           \<and> (riven_is_enabled self \<longleftrightarrow>
                \<not> missing (riven cfg) api_key \<and> \<not> blank (riven cfg) api_url)
           \<and> (missing (riven cfg) api_key \<longrightarrow> \<not> riven_is_enabled self)))
   \<and> (discord cfg \<noteq> Null \<longrightarrow>
        (\<exists>self. DiscordNotifier_init cfg = Inr self
           \<and> (missing (discord cfg) webhook_url \<longrightarrow> \<not> discord_is_enabled self)))"
  using OverseerrRequester_init_missing [of cfg] RivenRequester_init_returns [of cfg]
    DiscordNotifier_init_returns [of cfg]
  by (auto simp: OverseerrRequester_init_def section_key_def ebind_def)

theorem sink_construction_witness:
  "missing (overseerr empty_config) api_key
   \<and> OverseerrRequester_init empty_config = Inl ValueError
   \<and> riven empty_config \<noteq> Null \<and> missing (riven empty_config) api_key
   \<and> (\<exists>self. RivenRequester_init empty_config = Inr self \<and> \<not> riven_is_enabled self)
   \<and> discord empty_config \<noteq> Null \<and> missing (discord empty_config) webhook_url
   \<and> (\<exists>self. DiscordNotifier_init empty_config = Inr self \<and> \<not> discord_is_enabled self)"
proof -
  have h: "missing (overseerr empty_config) api_key" "riven empty_config \<noteq> Null"
    "missing (riven empty_config) api_key" "discord empty_config \<noteq> Null"
    "missing (discord empty_config) webhook_url"
    by (simp_all add: empty_config_def missing_def)
  with sink_construction [of empty_config] show ?thesis by auto
qed

lemma notification_step_eq:
  "notification_step send results' r (n, att) =
     (if notifiable results' r
      then ((case send r (case results' (result_key r) of None \<Rightarrow> Map.empty | Some d \<Rightarrow> d) of
               Inr True \<Rightarrow> n + 1 | _ \<Rightarrow> n), att @ [r])
      else (n, att))"
  by (cases "results' (result_key r)")
    (auto simp: notification_step_def notifiable_def truthy_bool_def Let_def
      split: sum.splits option.splits bool.splits)

lemma snd_notification_step:
  "snd (notification_step send results' r st) =
     (if notifiable results' r then snd st @ [r] else snd st)"
  by (cases st) (simp add: notification_step_eq)

lemma snd_fold_notification_step:
  "snd (fold (notification_step send results') releases st) =
     snd st @ filter (notifiable results') releases"
  by (induction releases arbitrary: st) (simp_all add: snd_notification_step)

text \<open>
  Claim C9. With the notifier enabled, the releases for which a delivery is attempted are, in
  order, exactly those whose entry in the result map, under the stringified identifier, marks
  "overseerr" or "riven" as successful. A release without an entry, or whose entry has both
  flags false or missing, is never among them.
\<close>

theorem notification_attempts:
  "(discord_is_enabled self \<longrightarrow>
      snd (send_release_notifications self send releases results')
        = filter (notifiable results') releases
      \<and> (\<forall>r \<in> set releases.
           r \<in> set (snd (send_release_notifications self send releases results'))
             \<longleftrightarrow> notifiable results' r))
   \<and> (\<forall>r. results' (result_key r) = None
            \<or> (\<exists>d. results' (result_key r) = Some d
                   \<and> d ''overseerr'' \<noteq> Some True \<and> d ''riven'' \<noteq> Some True) \<longrightarrow>
          r \<notin> set (snd (send_release_notifications self send releases results')))"
proof -
  have att: "set (snd (send_release_notifications self send releases results'))
      \<subseteq> {r \<in> set releases. notifiable results' r}"
    by (auto simp: send_release_notifications_def snd_fold_notification_step)
  have on: "discord_is_enabled self \<Longrightarrow>
      snd (send_release_notifications self send releases results')
        = filter (notifiable results') releases"
    by (simp add: send_release_notifications_def snd_fold_notification_step)
  have no: "results' (result_key r) = None
            \<or> (\<exists>d. results' (result_key r) = Some d
                   \<and> d ''overseerr'' \<noteq> Some True \<and> d ''riven'' \<noteq> Some True) \<Longrightarrow>
          \<not> notifiable results' r" for r
    by (auto simp: notifiable_def)
  from att on no show ?thesis by auto
qed


theorem notification_attempts_witness:
  "discord_is_enabled discord_on
   \<and> snd (send_release_notifications discord_on delivered
            [movie_release (Val 1), movie_release (Val 2), movie_release (Val 3),
             movie_release (Val 4), movie_release Absent] sample_results)
       = [movie_release (Val 1), movie_release (Val 3)]
   \<and> sample_results (result_key (movie_release (Val 4))) = None
   \<and> movie_release (Val 4) \<notin> set (snd (send_release_notifications discord_on delivered
            [movie_release (Val 1), movie_release (Val 2), movie_release (Val 3),
             movie_release (Val 4), movie_release Absent] sample_results))"
proof -
  let ?rs = "[movie_release (Val 1), movie_release (Val 2), movie_release (Val 3),
             movie_release (Val 4), movie_release Absent]"
  have on: "discord_is_enabled discord_on"
    by (simp add: discord_is_enabled_def discord_on_def truthy_seq_def)
  have keys: "result_key (movie_release (Val 1)) = ''1''" "result_key (movie_release (Val 2)) = ''2''"
    "result_key (movie_release (Val 3)) = ''3''" "result_key (movie_release (Val 4)) = ''4''"
    "result_key (movie_release Absent) = ''''"
    by (simp_all add: result_key_def movie_release_def empty_release_def str_int_def)
  have f: "filter (notifiable sample_results) ?rs = [movie_release (Val 1), movie_release (Val 3)]"
    by (simp add: notifiable_def keys sample_results_def)
  have none: "sample_results (result_key (movie_release (Val 4))) = None"
    by (simp add: keys sample_results_def)
  from notification_attempts [of discord_on delivered ?rs sample_results] on
  have eq: "snd (send_release_notifications discord_on delivered ?rs sample_results)
      = filter (notifiable sample_results) ?rs"
    by blast
  from notification_attempts [of discord_on delivered ?rs sample_results] none
  have notin: "movie_release (Val 4)
      \<notin> set (snd (send_release_notifications discord_on delivered ?rs sample_results))"
    by blast
  from on eq notin none show ?thesis by (simp only: f) simp
qed

end
